theory Spec2Isabelle
  imports Main "HOL-Library.Sublist"
begin

section \<open>Policy evaluation of fidesctl (\<open>fidesctl/core/evaluate.py\<close>)\<close>

subsection \<open>Data model\<close>

text \<open>
  The model classes come from \<open>fideslang.models\<close>, whose declarations are not
  part of the sources at hand. Each class is a record holding the attributes that
  \<open>evaluate.py\<close> reads, under the attribute names the code uses. A \<open>FidesKey\<close> is
  a string.
\<close>

type_synonym FidesKey = string

text \<open>
  \<open>InclusionEnum\<close>: the member \<open>ALL\<close> is written \<open>ALL'\<close>, since \<open>ALL\<close> is a
  reserved word of the term language.
\<close>

datatype InclusionEnum = ANY | ALL' | NONE

datatype StatusEnum = FAIL | PASS

text \<open>
  Modelled from the spec: the declaration of \<open>StatusEnum\<close> is missing; the status is
  one of PASS and FAIL, and \<open>evaluate\<close> compares it with the string \<open>"FAIL"\<close>, so the
  enumeration is string-valued and each member's value is its own name.
\<close>

fun status_value :: "StatusEnum \<Rightarrow> string" where
  "status_value FAIL = ''FAIL''"
| "status_value PASS = ''PASS''"

record PrivacyRule =
  "values" :: "FidesKey list"
  inclusion :: InclusionEnum

record PolicyRule =
  name :: string
  data_categories :: PrivacyRule
  data_uses :: PrivacyRule
  data_subjects :: PrivacyRule
  data_qualifier :: FidesKey

record Policy =
  fides_key :: FidesKey
  rules :: "PolicyRule list"

record PrivacyDeclaration =
  name :: string
  data_categories :: "FidesKey list"
  data_use :: FidesKey
  data_subjects :: "FidesKey list"
  data_qualifier :: FidesKey

record System =
  fides_key :: FidesKey
  privacy_declarations :: "PrivacyDeclaration list"

record Taxonomy =
  policy :: "Policy list"
  system :: "System list"

record Evaluation =
  status :: StatusEnum
  details :: "string list"
  message :: "string option"

text \<open>
  The exceptions the module can raise: \<open>KeyError\<close> from the subscript of the
  inclusion dictionary, \<open>EvaluationError\<close> from the two \<open>raise\<close> statements.
\<close>

datatype error = KeyError | EvaluationError

subsection \<open>Python built-ins\<close>

text \<open>\<open>any\<close> and \<open>all\<close> on a list of booleans, scanning from the left.\<close>

fun any_py :: "bool list \<Rightarrow> bool" where
  "any_py [] = False"
| "any_py (b # bs) = (if b then True else any_py bs)"

fun all_py :: "bool list \<Rightarrow> bool" where
  "all_py [] = True"
| "all_py (b # bs) = (if b then all_py bs else False)"

text \<open>\<open>x in xs\<close> on a list: some element equals \<open>x\<close>.\<close>

fun in_py :: "'a \<Rightarrow> 'a list \<Rightarrow> bool" where
  "in_py x [] = False"
| "in_py x (y # ys) = (if y = x then True else in_py x ys)"

subsection \<open>The comparator\<close>

text \<open>
  \<open>inclusion_map\<close> is the dictionary of \<open>compare_rule_to_declaration\<close>;
  subscripting it with a key it does not hold raises \<open>KeyError\<close>.
\<close>

definition inclusion_map :: "InclusionEnum \<rightharpoonup> (bool list \<Rightarrow> bool)" where
  "inclusion_map = [ANY \<mapsto> any_py, ALL' \<mapsto> all_py, NONE \<mapsto> (\<lambda>x. \<not> any_py x)]"

definition compare_rule_to_declaration ::
  "FidesKey list \<Rightarrow> FidesKey list \<Rightarrow> InclusionEnum \<Rightarrow> error + bool" where
  "compare_rule_to_declaration rule_types declaration_types rule_inclusion =
     (let matching_data_categories =
            map (\<lambda>data_category. in_py data_category rule_types) declaration_types
      in case inclusion_map rule_inclusion of
           None \<Rightarrow> Inl KeyError
         | Some f \<Rightarrow> Inr (f matching_data_categories))"

subsection \<open>The rule evaluator\<close>

text \<open>
  The detail string of a violation: the format string of \<open>execute_evaluation\<close> with
  its four arguments, all of them strings, put in place of the four fields.
\<close>

definition detail_format :: "string \<Rightarrow> string \<Rightarrow> string \<Rightarrow> string \<Rightarrow> string" where
  "detail_format declaration_name system_key rule_name policy_key =
     ''Declaration ('' @ declaration_name @ '') of System ('' @ system_key
       @ '') failed Rule ('' @ rule_name @ '') from Policy ('' @ policy_key @ '')''"

text \<open>
  A \<open>for\<close> loop over a list that updates an accumulator and stops at the first
  exception raised by its body.
\<close>

fun for_each :: "('a \<Rightarrow> 's \<Rightarrow> error + 's) \<Rightarrow> 'a list \<Rightarrow> 's \<Rightarrow> error + 's" where
  "for_each body [] acc = Inr acc"
| "for_each body (x # xs) acc =
     (case body x acc of Inl e \<Rightarrow> Inl e | Inr acc' \<Rightarrow> for_each body xs acc')"

text \<open>
  The body of the innermost loop of \<open>execute_evaluation\<close>: the three comparisons in the
  order of the source, the equality of the qualifiers, and the append to
  \<open>evaluation_detail_list\<close> when \<open>all\<close> of the four results holds. A variable whose
  name is also an attribute name is written with a prime (\<open>policy'\<close>, \<open>system'\<close>,
  \<open>fides_key'\<close>, \<open>message'\<close>).
\<close>

definition evaluation_loop_body ::
  "Policy \<Rightarrow> PolicyRule \<Rightarrow> System \<Rightarrow> PrivacyDeclaration \<Rightarrow> string list \<Rightarrow> error + string list" where
  "evaluation_loop_body policy' rule system' declaration evaluation_detail_list =
     (case compare_rule_to_declaration
             (values (PolicyRule.data_categories rule))
             (PrivacyDeclaration.data_categories declaration)
             (inclusion (PolicyRule.data_categories rule)) of
        Inl e \<Rightarrow> Inl e
      | Inr data_category_result \<Rightarrow>
     (case compare_rule_to_declaration
             (values (data_uses rule))
             [data_use declaration]
             (inclusion (data_uses rule)) of
        Inl e \<Rightarrow> Inl e
      | Inr data_use_result \<Rightarrow>
     (case compare_rule_to_declaration
             (values (PolicyRule.data_subjects rule))
             (PrivacyDeclaration.data_subjects declaration)
             (inclusion (PolicyRule.data_subjects rule)) of
        Inl e \<Rightarrow> Inl e
      | Inr data_subject_result \<Rightarrow>
     (let data_qualifier_result =
            (PrivacyDeclaration.data_qualifier declaration = PolicyRule.data_qualifier rule)
      in if all_py [data_category_result, data_subject_result,
                    data_use_result, data_qualifier_result]
         then Inr (evaluation_detail_list @
                [detail_format (PrivacyDeclaration.name declaration) (System.fides_key system')
                   (PolicyRule.name rule) (Policy.fides_key policy')])
         else Inr evaluation_detail_list))))"

text \<open>
  \<open>Evaluation(status=..., details=...)\<close> leaves the message at its default.
  Modelled from the spec: the declaration of \<open>Evaluation\<close> is missing; its message is
  optional, so an evaluation built without one carries none.
\<close>

definition execute_evaluation :: "Taxonomy \<Rightarrow> error + Evaluation" where
  "execute_evaluation taxonomy =
     (case for_each (\<lambda>policy'.
             for_each (\<lambda>rule.
               for_each (\<lambda>system'.
                 for_each (\<lambda>declaration. evaluation_loop_body policy' rule system' declaration)
                   (privacy_declarations system'))
                 (system taxonomy))
               (rules policy'))
             (policy taxonomy) [] of
        Inl e \<Rightarrow> Inl e
      | Inr evaluation_detail_list \<Rightarrow>
          (let status_enum = (if length evaluation_detail_list > 0 then FAIL else PASS)
           in Inr \<lparr>status = status_enum, details = evaluation_detail_list, message = None\<rparr>))"

subsection \<open>Collaborators and effects\<close>

type_synonym url = string
type_synonym headers = "(string \<times> string) list"

text \<open>
  The functions \<open>evaluate.py\<close> imports from modules that are not at hand are parameters
  of the model. The resource type is the constant \<open>"policy"\<close> at every call, so it is
  left out.
  \<^item> \<open>parse\<close>: \<open>fidesctl.core.parse.parse\<close>, from a manifest directory to a taxonomy;
  \<^item> \<open>api_ls\<close>: \<open>handle_cli_response(api.ls(...)).json()\<close>, read through
    \<open>resource["fides_key"]\<close>: the keys of the policies the server lists, in its order;
  \<^item> \<open>get_server_resource\<close>: the policy under a key, or \<open>None\<close>;
  \<^item> \<open>get_server_resources\<close>: the policies fetched for a list of keys;
  \<^item> \<open>get_referenced_missing_keys\<close> and \<open>hydrate_missing_resources\<close> of
    \<open>fideslang.relationships\<close>.

  Each of them is taken to return: \<open>evaluate.py\<close> catches nothing, so an exception
  raised inside one of them would end the run at that call, and no statement below is
  about such a run. The \<open>url\<close> and the \<open>headers\<close> are only handed on to them.
\<close>

record collaborators =
  parse :: "string \<Rightarrow> Taxonomy"
  api_ls :: "url \<Rightarrow> headers \<Rightarrow> FidesKey list"
  get_server_resource :: "url \<Rightarrow> headers \<Rightarrow> FidesKey \<Rightarrow> Policy option"
  get_server_resources :: "url \<Rightarrow> headers \<Rightarrow> FidesKey list \<Rightarrow> Policy list"
  get_referenced_missing_keys :: "Taxonomy \<Rightarrow> FidesKey list"
  hydrate_missing_resources :: "url \<Rightarrow> headers \<Rightarrow> FidesKey list \<Rightarrow> Taxonomy \<Rightarrow> Taxonomy"

text \<open>
  What a run does besides returning: the calls to the collaborators that read files or
  the network, and the console output. \<open>ExecuteEvaluation\<close> marks the call of
  \<open>execute_evaluation\<close> in \<open>evaluate\<close> and holds its argument; \<open>PrettyEcho\<close> holds
  the evaluation whose \<open>dict()\<close> is printed, and the colour.
\<close>

datatype event =
    Parse string
  | ApiLs url headers
  | GetServerResource url headers FidesKey
  | GetServerResources url headers "FidesKey list"
  | HydrateMissingResources url headers "FidesKey list"
  | ExecuteEvaluation Taxonomy
  | EchoGreen string
  | EchoRed string
  | Print string
  | PrettyEcho Evaluation string

text \<open>
  The truth value of a string argument that may also be \<open>None\<close>: \<open>None\<close> and the empty
  string are false, every other string is true.
\<close>

fun truthy :: "string option \<Rightarrow> bool" where
  "truthy None = False"
| "truthy (Some k) = (k \<noteq> [])"

text \<open>\<open>sep.join(xs)\<close>.\<close>

fun join :: "string \<Rightarrow> string list \<Rightarrow> string" where
  "join sep [] = []"
| "join sep [x] = x"
| "join sep (x # y # ys) = x @ sep @ join sep (y # ys)"

subsection \<open>The policy resolver\<close>

text \<open>
  \<open>exclude if exclude else []\<close> turns \<open>None\<close> and the empty list into the empty
  list. The result comes with the calls made to the server.
\<close>

definition get_all_server_policies ::
  "collaborators \<Rightarrow> url \<Rightarrow> headers \<Rightarrow> FidesKey list option \<Rightarrow> Policy list \<times> event list" where
  "get_all_server_policies c url headers exclude =
     (let exclude = (case exclude of None \<Rightarrow> [] | Some e \<Rightarrow> if e \<noteq> [] then e else []);
          ls_response = api_ls c url headers;
          policy_keys = filter (\<lambda>resource_key. \<not> in_py resource_key exclude) ls_response;
          policy_list = get_server_resources c url headers policy_keys
      in (policy_list, [ApiLs url headers, GetServerResources url headers policy_keys]))"

text \<open>
  \<open>next(filter(...), None)\<close> is the first local policy under the key, or \<open>None\<close>. A
  policy object is true as a condition, so \<open>if local_policy_found\<close> and
  \<open>if server_policy_found\<close> test for \<open>None\<close>.
\<close>

definition get_evaluation_policies ::
  "collaborators \<Rightarrow> Policy list \<Rightarrow> string option \<Rightarrow> url \<Rightarrow> headers \<Rightarrow> Policy list \<times> event list" where
  "get_evaluation_policies c local_policies evaluate_fides_key url headers =
     (case (if truthy evaluate_fides_key then evaluate_fides_key else None) of
        Some key \<Rightarrow>
          (case find (\<lambda>policy'. Policy.fides_key policy' = key) local_policies of
             Some local_policy_found \<Rightarrow> ([local_policy_found], [])
           | None \<Rightarrow>
               (let server_policy_found = get_server_resource c url headers key
                in ((case server_policy_found of Some p \<Rightarrow> [p] | None \<Rightarrow> []),
                    [GetServerResource url headers key])))
      | None \<Rightarrow>
          (let local_policy_keys =
                 (if local_policies \<noteq> [] then Some (map Policy.fides_key local_policies)
                  else None);
               (server_policies, calls) = get_all_server_policies c url headers local_policy_keys;
               all_policies = local_policies @ server_policies
           in (all_policies, calls)))"

definition validate_policies_exist ::
  "Policy list \<Rightarrow> string option \<Rightarrow> (error + unit) \<times> event list" where
  "validate_policies_exist policies evaluate_fides_key =
     (if policies = [] then
        (Inl EvaluationError,
         [EchoRed (case (if truthy evaluate_fides_key then evaluate_fides_key else None) of
                     Some key \<Rightarrow> ''Policy '' @ key @ '' could not be found''
                   | None \<Rightarrow> ''No Policies found to evaluate'')])
      else (Inr (), []))"

subsection \<open>The orchestrator\<close>

definition evaluate ::
  "collaborators \<Rightarrow> url \<Rightarrow> string \<Rightarrow> string option \<Rightarrow> headers \<Rightarrow> string \<Rightarrow> bool
     \<Rightarrow> (error + Evaluation) \<times> event list" where
  "evaluate c url manifests_dir fides_key' headers message' dry =
     (let taxonomy = parse c manifests_dir;
          (policies, calls) = get_evaluation_policies c (policy taxonomy) fides_key' url headers;
          taxonomy = taxonomy\<lparr>policy := policies\<rparr>;
          trace = Parse manifests_dir # calls
      in case validate_policies_exist (policy taxonomy) fides_key' of
           (Inl e, out) \<Rightarrow> (Inl e, trace @ out)
         | (Inr _, out) \<Rightarrow>
     (let trace = trace @ out @
            [EchoGreen (''Evaluating the following policies:'' @ [CHR 0x0A]
               @ join [CHR 0x0A] (map Policy.fides_key (policy taxonomy))),
             Print (replicate 10 CHR ''-''),
             EchoGreen ''Checking for missing resources...''];
          missing_resource_keys = get_referenced_missing_keys c taxonomy;
          (taxonomy, trace) =
            (if missing_resource_keys \<noteq> [] then
               (hydrate_missing_resources c url headers missing_resource_keys taxonomy,
                trace @
                  [EchoGreen (''Fetching the following missing resources from the server:''
                     @ [CHR 0x0A] @ join [CHR 0x0A] missing_resource_keys),
                   EchoGreen ''Hydrating the taxonomy...'',
                   HydrateMissingResources url headers missing_resource_keys])
             else (taxonomy, trace));
          trace = trace @ [EchoGreen ''Executing evaluations...'', ExecuteEvaluation taxonomy]
      in case execute_evaluation taxonomy of
           Inl e \<Rightarrow> (Inl e, trace)
         | Inr evaluation \<Rightarrow>
     (let evaluation = evaluation\<lparr>message := Some message'\<rparr>
      in if status_value (status evaluation) = ''FAIL'' then
           (Inl EvaluationError, trace @ [PrettyEcho evaluation ''red''])
         else
           (Inr evaluation,
            trace @ (if \<not> dry then [EchoGreen ''Sending the evaluation results to the server...'']
                     else [])
              @ [EchoGreen ''Evaluation passed!'']))))"

subsection \<open>An in-memory server\<close>

text \<open>
  Modelled from the spec: the remote resource API (\<open>list(resource_type) -> [key]\<close>,
  \<open>get(resource_type, key) -> Resource | None\<close>,
  \<open>get_many(resource_type, keys) -> [Resource]\<close>) is missing from the sources. Here is
  a server that holds a list of policies and answers from it: it lists their keys, gets
  the policy stored under a key, and gets those of a list of keys that it finds.
  The local side parses every directory to the given taxonomy and has no missing
  references.
\<close>

definition server_get :: "Policy list \<Rightarrow> FidesKey \<Rightarrow> Policy option" where
  "server_get remote key = find (\<lambda>p. Policy.fides_key p = key) remote"

definition server_get_many :: "Policy list \<Rightarrow> FidesKey list \<Rightarrow> Policy list" where
  "server_get_many remote keys =
     concat (map (\<lambda>key. case server_get remote key of None \<Rightarrow> [] | Some p \<Rightarrow> [p]) keys)"

definition in_memory :: "Taxonomy \<Rightarrow> Policy list \<Rightarrow> collaborators" where
  "in_memory local remote =
     \<lparr>parse = (\<lambda>manifests_dir. local),
      api_ls = (\<lambda>url headers. map Policy.fides_key remote),
      get_server_resource = (\<lambda>url headers key. server_get remote key),
      get_server_resources = (\<lambda>url headers keys. server_get_many remote keys),
      get_referenced_missing_keys = (\<lambda>taxonomy. []),
      hydrate_missing_resources = (\<lambda>url headers keys taxonomy. taxonomy)\<rparr>"

subsection \<open>Notions used in the statements\<close>

text \<open>
  The condition under which the innermost loop of \<open>execute_evaluation\<close> records a
  detail, on the results of the comparator: the category, use and subject comparisons
  return true, the use being the declaration's single \<open>data_use\<close> in a one-element list,
  and the declaration's qualifier equals the rule's.
\<close>

definition violates :: "PolicyRule \<Rightarrow> PrivacyDeclaration \<Rightarrow> bool" where
  "violates rule declaration =
     (compare_rule_to_declaration (values (PolicyRule.data_categories rule))
        (PrivacyDeclaration.data_categories declaration)
        (inclusion (PolicyRule.data_categories rule)) = Inr True
      \<and> compare_rule_to_declaration (values (data_uses rule)) [data_use declaration]
        (inclusion (data_uses rule)) = Inr True
      \<and> compare_rule_to_declaration (values (PolicyRule.data_subjects rule))
        (PrivacyDeclaration.data_subjects declaration)
        (inclusion (PolicyRule.data_subjects rule)) = Inr True
      \<and> PrivacyDeclaration.data_qualifier declaration = PolicyRule.data_qualifier rule)"

subsection \<open>Concrete inputs\<close>

text \<open>
  A rule against advertising with contact data of identified customers, a declaration
  that does so and one that does not, and the taxonomies of one policy and one system
  built from them.
\<close>

definition rule_no_ads :: PolicyRule where
  "rule_no_ads =
     \<lparr>PolicyRule.name = ''no-ads'',
      data_categories = \<lparr>values = [''user.contact''], inclusion = ANY\<rparr>,
      data_uses = \<lparr>values = [''advertising''], inclusion = ANY\<rparr>,
      data_subjects = \<lparr>values = [''customer''], inclusion = ANY\<rparr>,
      data_qualifier = ''identified''\<rparr>"

definition declaration_ads :: PrivacyDeclaration where
  "declaration_ads =
     \<lparr>PrivacyDeclaration.name = ''ads'',
      data_categories = [''user.contact''],
      data_use = ''advertising'',
      data_subjects = [''customer''],
      data_qualifier = ''identified''\<rparr>"

definition declaration_billing :: PrivacyDeclaration where
  "declaration_billing =
     \<lparr>PrivacyDeclaration.name = ''billing'',
      data_categories = [''user.contact''],
      data_use = ''provide'',
      data_subjects = [''customer''],
      data_qualifier = ''identified''\<rparr>"

definition policy_one :: Policy where
  "policy_one = \<lparr>Policy.fides_key = ''policy1'', rules = [rule_no_ads]\<rparr>"

definition system_ads :: System where
  "system_ads = \<lparr>System.fides_key = ''shop'', privacy_declarations = [declaration_ads]\<rparr>"

definition system_billing :: System where
  "system_billing =
     \<lparr>System.fides_key = ''shop'', privacy_declarations = [declaration_billing]\<rparr>"

definition taxonomy_failing :: Taxonomy where
  "taxonomy_failing = \<lparr>policy = [policy_one], system = [system_ads]\<rparr>"

definition taxonomy_passing :: Taxonomy where
  "taxonomy_passing = \<lparr>policy = [policy_one], system = [system_billing]\<rparr>"

text \<open>
  Policies for the resolver: local \<open>A\<close> and \<open>B\<close>, and a server holding its own \<open>B\<close>,
  which differs from the local one, and \<open>C\<close>. A taxonomy without policies, a server
  address and a manifest directory.
\<close>

definition policy_A :: Policy where
  "policy_A = \<lparr>Policy.fides_key = ''A'', rules = []\<rparr>"

definition policy_B :: Policy where
  "policy_B = \<lparr>Policy.fides_key = ''B'', rules = [rule_no_ads]\<rparr>"

definition policy_B_remote :: Policy where
  "policy_B_remote = \<lparr>Policy.fides_key = ''B'', rules = []\<rparr>"

definition policy_C :: Policy where
  "policy_C = \<lparr>Policy.fides_key = ''C'', rules = []\<rparr>"

definition taxonomy_no_policy :: Taxonomy where
  "taxonomy_no_policy = \<lparr>policy = [], system = [system_ads]\<rparr>"

definition url0 :: url where
  "url0 = ''http://localhost:8080''"

subsection \<open>Facts about the built-ins and the comparator\<close>

lemma in_py_set: "in_py x xs = (x \<in> set xs)"
  by (induction xs) auto

lemma any_py_set: "any_py bs = (True \<in> set bs)"
  by (induction bs) auto

lemma all_py_set: "all_py bs = (False \<notin> set bs)"
  by (induction bs) auto

lemma any_py_map: "any_py (map P xs) = (\<exists>x \<in> set xs. P x)"
  by (induction xs) auto

lemma all_py_map: "all_py (map P xs) = (\<forall>x \<in> set xs. P x)"
  by (induction xs) auto

lemma compare_ANY:
  "compare_rule_to_declaration rs ds ANY = Inr (\<exists>d \<in> set ds. d \<in> set rs)"
  by (simp add: compare_rule_to_declaration_def inclusion_map_def any_py_map in_py_set)

lemma compare_ALL:
  "compare_rule_to_declaration rs ds ALL' = Inr (\<forall>d \<in> set ds. d \<in> set rs)"
  by (simp add: compare_rule_to_declaration_def inclusion_map_def all_py_map in_py_set)

lemma compare_NONE:
  "compare_rule_to_declaration rs ds NONE = Inr (\<forall>d \<in> set ds. d \<notin> set rs)"
  by (simp add: compare_rule_to_declaration_def inclusion_map_def any_py_map in_py_set)

text \<open>
  Claim C1. For all rule values, declaration values and inclusion modes the comparator
  returns a boolean and never raises: under ANY the result is true exactly when some
  declaration value is among the rule values, under ALL exactly when every declaration
  value is, under NONE exactly when no declaration value is.
\<close>

theorem compare_rule_to_declaration_spec:
  "compare_rule_to_declaration rule_values declaration_values ANY =
     Inr (\<exists>d \<in> set declaration_values. d \<in> set rule_values)
   \<and> compare_rule_to_declaration rule_values declaration_values ALL' =
     Inr (\<forall>d \<in> set declaration_values. d \<in> set rule_values)
   \<and> compare_rule_to_declaration rule_values declaration_values NONE =
     Inr (\<forall>d \<in> set declaration_values. d \<notin> set rule_values)
   \<and> (\<exists>b. compare_rule_to_declaration rule_values declaration_values inclusion_mode = Inr b)"
proof -
  have total: "\<exists>b. compare_rule_to_declaration rule_values declaration_values inclusion_mode = Inr b"
    by (cases inclusion_mode) (simp_all add: compare_ANY compare_ALL compare_NONE)
  show ?thesis
    using total by (simp add: compare_ANY compare_ALL compare_NONE)
qed

theorem compare_rule_to_declaration_spec_witness:
  "compare_rule_to_declaration [''a'', ''b''] [''b'', ''c''] ANY = Inr True
   \<and> compare_rule_to_declaration [''a'', ''b''] [''b'', ''c''] ALL' = Inr False
   \<and> compare_rule_to_declaration [''a'', ''b''] [''b'', ''c''] NONE = Inr False
   \<and> compare_rule_to_declaration [''a'', ''b''] [''c''] NONE = Inr True
   \<and> compare_rule_to_declaration [''a'', ''b''] [''b'', ''a''] ALL' = Inr True"
  using compare_rule_to_declaration_spec [of "[''a'', ''b'']" "[''b'', ''c'']"]
        compare_rule_to_declaration_spec [of "[''a'', ''b'']" "[''c'']"]
        compare_rule_to_declaration_spec [of "[''a'', ''b'']" "[''b'', ''a'']"]
  by simp

text \<open>
  Claim C6. On an empty list of declaration values the comparator returns true under
  NONE, true under ALL and false under ANY, whatever the rule values are.
\<close>

theorem compare_empty_declaration:
  "compare_rule_to_declaration rule_values [] NONE = Inr True
   \<and> compare_rule_to_declaration rule_values [] ALL' = Inr True
   \<and> compare_rule_to_declaration rule_values [] ANY = Inr False"
  by (simp add: compare_rule_to_declaration_def inclusion_map_def)

subsection \<open>Facts about the rule evaluator\<close>

lemma compare_total: "\<exists>b. compare_rule_to_declaration rs ds i = Inr b"
  by (cases i) (simp_all add: compare_ANY compare_ALL compare_NONE)

lemma for_each_append:
  "(\<And>x acc. x \<in> set xs \<Longrightarrow> body x acc = Inr (acc @ f x))
   \<Longrightarrow> for_each body xs acc = Inr (acc @ concat (map f xs))"
  by (induction xs arbitrary: acc) simp_all

lemma evaluation_loop_body_eq:
  "evaluation_loop_body p r s d acc =
     Inr (acc @ (if violates r d
        then [detail_format (PrivacyDeclaration.name d) (System.fides_key s)
                (PolicyRule.name r) (Policy.fides_key p)]
        else []))"
proof -
  obtain b1 where b1: "compare_rule_to_declaration (values (PolicyRule.data_categories r))
        (PrivacyDeclaration.data_categories d) (inclusion (PolicyRule.data_categories r)) = Inr b1"
    using compare_total by blast
  obtain b2 where b2: "compare_rule_to_declaration (values (data_uses r)) [data_use d]
        (inclusion (data_uses r)) = Inr b2"
    using compare_total by blast
  obtain b3 where b3: "compare_rule_to_declaration (values (PolicyRule.data_subjects r))
        (PrivacyDeclaration.data_subjects d) (inclusion (PolicyRule.data_subjects r)) = Inr b3"
    using compare_total by blast
  show ?thesis
    by (simp add: evaluation_loop_body_def violates_def b1 b2 b3)
qed

lemma details_loop:
  "for_each (\<lambda>policy'.
             for_each (\<lambda>rule.
               for_each (\<lambda>system'.
                 for_each (\<lambda>declaration. evaluation_loop_body policy' rule system' declaration)
                   (privacy_declarations system'))
                 (system taxonomy))
               (rules policy'))
             (policy taxonomy) acc
   = Inr (acc @ concat (map (\<lambda>p. concat (map (\<lambda>r. concat (map (\<lambda>s. concat (map (\<lambda>d.
        if violates r d
        then [detail_format (PrivacyDeclaration.name d) (System.fides_key s)
                (PolicyRule.name r) (Policy.fides_key p)]
        else []) (privacy_declarations s))) (system taxonomy))) (rules p))) (policy taxonomy)))"
  by (intro for_each_append evaluation_loop_body_eq)

lemma execute_evaluation_eq:
  "execute_evaluation taxonomy =
     (let ds = concat (map (\<lambda>p. concat (map (\<lambda>r. concat (map (\<lambda>s. concat (map (\<lambda>d.
        if violates r d
        then [detail_format (PrivacyDeclaration.name d) (System.fides_key s)
                (PolicyRule.name r) (Policy.fides_key p)]
        else []) (privacy_declarations s))) (system taxonomy))) (rules p))) (policy taxonomy))
      in Inr \<lparr>status = (if ds \<noteq> [] then FAIL else PASS), details = ds, message = None\<rparr>)"
  unfolding execute_evaluation_def details_loop by (simp add: Let_def)

lemma sublist_detail_format:
  "sublist dn (detail_format dn sk rn pk)"
  "sublist sk (detail_format dn sk rn pk)"
  "sublist rn (detail_format dn sk rn pk)"
  "sublist pk (detail_format dn sk rn pk)"
proof -
  show "sublist dn (detail_format dn sk rn pk)"
    unfolding detail_format_def sublist_def by blast
  show "sublist sk (detail_format dn sk rn pk)"
    unfolding detail_format_def sublist_def by (metis append.assoc)
  show "sublist rn (detail_format dn sk rn pk)"
    unfolding detail_format_def sublist_def by (metis append.assoc)
  show "sublist pk (detail_format dn sk rn pk)"
    unfolding detail_format_def sublist_def by (metis append.assoc)
qed

lemma violates_ads: "violates rule_no_ads declaration_ads"
  by (simp add: violates_def rule_no_ads_def declaration_ads_def
      compare_rule_to_declaration_def inclusion_map_def)

lemma not_violates_billing: "\<not> violates rule_no_ads declaration_billing"
  by (simp add: violates_def rule_no_ads_def declaration_billing_def
      compare_rule_to_declaration_def inclusion_map_def)

text \<open>
  Claim C2. \<open>execute_evaluation\<close> always returns an evaluation, and its details are,
  in the order of the scan over policies, rules, systems and declarations, one string
  for each quadruple at which the category comparison, the use comparison on the
  one-element list of the declaration's \<open>data_use\<close> and the subject comparison return
  true and the declaration's qualifier equals the rule's, and no other string. The string
  of a quadruple is the format string filled with the declaration's name, the system's
  key, the rule's name and the policy's key, each of which occurs in it.
\<close>

theorem execute_evaluation_records_violations:
  "(\<exists>evaluation. execute_evaluation taxonomy = Inr evaluation \<and>
     details evaluation =
       [detail_format (PrivacyDeclaration.name d) (System.fides_key s)
          (PolicyRule.name r) (Policy.fides_key p).
        p \<leftarrow> policy taxonomy, r \<leftarrow> rules p, s \<leftarrow> system taxonomy, d \<leftarrow> privacy_declarations s,
        compare_rule_to_declaration (values (PolicyRule.data_categories r))
          (PrivacyDeclaration.data_categories d)
          (inclusion (PolicyRule.data_categories r)) = Inr True
        \<and> compare_rule_to_declaration (values (data_uses r)) [data_use d]
          (inclusion (data_uses r)) = Inr True
        \<and> compare_rule_to_declaration (values (PolicyRule.data_subjects r))
          (PrivacyDeclaration.data_subjects d)
          (inclusion (PolicyRule.data_subjects r)) = Inr True
        \<and> PrivacyDeclaration.data_qualifier d = PolicyRule.data_qualifier r])
   \<and> sublist dn (detail_format dn sk rn pk) \<and> sublist sk (detail_format dn sk rn pk)
   \<and> sublist rn (detail_format dn sk rn pk) \<and> sublist pk (detail_format dn sk rn pk)"
  by (simp add: execute_evaluation_eq Let_def sublist_detail_format violates_def)

text \<open>
  Claim C3. The evaluation \<open>execute_evaluation\<close> returns has status FAIL when its details
  are not empty and PASS when they are. A taxonomy of one policy with one rule and one
  system with one declaration that matches the rule in all four dimensions gives FAIL
  and exactly one detail, which contains the declaration's name, the system's key, the
  rule's name and the policy's key; a taxonomy in which no quadruple matches gives PASS
  and no details.
\<close>

theorem execute_evaluation_status:
  "(\<exists>evaluation. execute_evaluation taxonomy = Inr evaluation \<and>
      status evaluation = (if details evaluation \<noteq> [] then FAIL else PASS))
   \<and> (policy taxonomy = [p] \<and> rules p = [r] \<and> system taxonomy = [s]
        \<and> privacy_declarations s = [d] \<and> violates r d \<longrightarrow>
        execute_evaluation taxonomy =
          Inr \<lparr>status = FAIL,
               details = [detail_format (PrivacyDeclaration.name d) (System.fides_key s)
                            (PolicyRule.name r) (Policy.fides_key p)],
               message = None\<rparr>
        \<and> sublist (PrivacyDeclaration.name d)
             (detail_format (PrivacyDeclaration.name d) (System.fides_key s)
                (PolicyRule.name r) (Policy.fides_key p))
        \<and> sublist (System.fides_key s)
             (detail_format (PrivacyDeclaration.name d) (System.fides_key s)
                (PolicyRule.name r) (Policy.fides_key p))
        \<and> sublist (PolicyRule.name r)
             (detail_format (PrivacyDeclaration.name d) (System.fides_key s)
                (PolicyRule.name r) (Policy.fides_key p))
        \<and> sublist (Policy.fides_key p)
             (detail_format (PrivacyDeclaration.name d) (System.fides_key s)
                (PolicyRule.name r) (Policy.fides_key p)))
   \<and> ((\<forall>p' \<in> set (policy taxonomy). \<forall>r' \<in> set (rules p'). \<forall>s' \<in> set (system taxonomy).
          \<forall>d' \<in> set (privacy_declarations s'). \<not> violates r' d') \<longrightarrow>
        execute_evaluation taxonomy = Inr \<lparr>status = PASS, details = [], message = None\<rparr>)"
proof (intro conjI impI)
  show "\<exists>evaluation. execute_evaluation taxonomy = Inr evaluation \<and>
      status evaluation = (if details evaluation \<noteq> [] then FAIL else PASS)"
    by (simp add: execute_evaluation_eq Let_def)
next
  assume "policy taxonomy = [p] \<and> rules p = [r] \<and> system taxonomy = [s]
        \<and> privacy_declarations s = [d] \<and> violates r d"
  then show "execute_evaluation taxonomy =
          Inr \<lparr>status = FAIL,
               details = [detail_format (PrivacyDeclaration.name d) (System.fides_key s)
                            (PolicyRule.name r) (Policy.fides_key p)],
               message = None\<rparr>"
    by (simp add: execute_evaluation_eq Let_def)
next
  assume "\<forall>p' \<in> set (policy taxonomy). \<forall>r' \<in> set (rules p'). \<forall>s' \<in> set (system taxonomy).
          \<forall>d' \<in> set (privacy_declarations s'). \<not> violates r' d'"
  then show "execute_evaluation taxonomy = Inr \<lparr>status = PASS, details = [], message = None\<rparr>"
    by (simp add: execute_evaluation_eq Let_def)
qed (rule sublist_detail_format)+

theorem execute_evaluation_status_witness:
  "execute_evaluation taxonomy_failing =
     Inr \<lparr>status = FAIL,
          details = [''Declaration (ads) of System (shop) failed Rule (no-ads) from Policy (policy1)''],
          message = None\<rparr>
   \<and> execute_evaluation taxonomy_passing = Inr \<lparr>status = PASS, details = [], message = None\<rparr>"
  using execute_evaluation_status
          [of taxonomy_failing policy_one rule_no_ads system_ads declaration_ads]
        execute_evaluation_status
          [of taxonomy_passing policy_one rule_no_ads system_billing declaration_billing]
        violates_ads not_violates_billing
  by (simp add: taxonomy_failing_def taxonomy_passing_def policy_one_def system_ads_def
      system_billing_def detail_format_def rule_no_ads_def declaration_ads_def)

lemma execute_evaluation_total: "\<exists>evaluation. execute_evaluation taxonomy = Inr evaluation"
  by (simp add: execute_evaluation_eq Let_def)

lemma execute_failing:
  "execute_evaluation taxonomy_failing =
     Inr \<lparr>status = FAIL,
          details = [''Declaration (ads) of System (shop) failed Rule (no-ads) from Policy (policy1)''],
          message = None\<rparr>"
  using violates_ads
  by (simp add: execute_evaluation_eq taxonomy_failing_def policy_one_def system_ads_def
      detail_format_def rule_no_ads_def declaration_ads_def)

lemma execute_passing:
  "execute_evaluation taxonomy_passing = Inr \<lparr>status = PASS, details = [], message = None\<rparr>"
  using not_violates_billing
  by (simp add: execute_evaluation_eq taxonomy_passing_def policy_one_def system_billing_def)

theorem execute_evaluation_records_violations_witness:
  "\<exists>evaluation. execute_evaluation taxonomy_failing = Inr evaluation \<and> details evaluation =
     [''Declaration (ads) of System (shop) failed Rule (no-ads) from Policy (policy1)'']"
  using execute_evaluation_records_violations [of taxonomy_failing]
  by (simp add: execute_failing)

subsection \<open>Facts about the policy resolver\<close>

lemma get_all_server_policies_eq:
  "get_all_server_policies c url headers exclude =
    (get_server_resources c url headers
       [k \<leftarrow> api_ls c url headers. k \<notin> set (case exclude of None \<Rightarrow> [] | Some e \<Rightarrow> e)],
     [ApiLs url headers, GetServerResources url headers
       [k \<leftarrow> api_ls c url headers. k \<notin> set (case exclude of None \<Rightarrow> [] | Some e \<Rightarrow> e)]])"
proof (cases exclude)
  case None
  then show ?thesis by (simp add: get_all_server_policies_def Let_def)
next
  case (Some e)
  then show ?thesis
    by (cases "e = []") (simp_all add: get_all_server_policies_def Let_def in_py_set)
qed

lemma get_evaluation_policies_all:
  "\<not> truthy k \<Longrightarrow> get_evaluation_policies c local_policies k url headers =
     (local_policies @ get_server_resources c url headers
        [k \<leftarrow> api_ls c url headers. k \<notin> set (map Policy.fides_key local_policies)],
      [ApiLs url headers, GetServerResources url headers
        [k \<leftarrow> api_ls c url headers. k \<notin> set (map Policy.fides_key local_policies)]])"
  by (simp add: get_evaluation_policies_def get_all_server_policies_eq)

lemma server_get_many_distinct:
  "distinct (map Policy.fides_key remote) \<Longrightarrow>
   server_get_many remote [k \<leftarrow> map Policy.fides_key remote. P k]
     = [p \<leftarrow> remote. P (Policy.fides_key p)]"
proof (induction remote)
  case Nil
  then show ?case by (simp add: server_get_many_def)
next
  case (Cons a remote)
  have step: "server_get_many (a # remote) [k \<leftarrow> map Policy.fides_key remote. P k]
     = server_get_many remote [k \<leftarrow> map Policy.fides_key remote. P k]"
    using Cons.prems
    by (auto simp: server_get_many_def server_get_def intro!: arg_cong[where f=concat] map_cong)
  show ?case
    using Cons step by (auto simp: server_get_many_def server_get_def)
qed

lemma get_evaluation_policies_events:
  "ExecuteEvaluation t \<notin> set (snd (get_evaluation_policies c ps k url headers))"
  by (auto simp: get_evaluation_policies_def get_all_server_policies_def Let_def
      split: option.splits prod.splits if_splits)

text \<open>
  Claim C4. With a non-empty target key: when some local policy has the key, the result
  is the one-element list of the first such policy and no call goes to the server; when
  no local policy has it, the server is asked for that key once, and the result is the
  one-element list of the policy it returns, or the empty list when it returns none.
\<close>

theorem get_evaluation_policies_target_key:
  "key \<noteq> [] \<Longrightarrow>
     ((\<exists>p \<in> set local_policies. Policy.fides_key p = key) \<longrightarrow>
        (\<exists>p. find (\<lambda>q. Policy.fides_key q = key) local_policies = Some p
           \<and> p \<in> set local_policies \<and> Policy.fides_key p = key
           \<and> get_evaluation_policies c local_policies (Some key) url headers = ([p], [])))
   \<and> ((\<forall>p \<in> set local_policies. Policy.fides_key p \<noteq> key) \<longrightarrow>
        get_evaluation_policies c local_policies (Some key) url headers =
          ((case get_server_resource c url headers key of Some p \<Rightarrow> [p] | None \<Rightarrow> []),
           [GetServerResource url headers key]))"
proof (intro conjI impI)
  assume k: "key \<noteq> []" and "\<exists>p \<in> set local_policies. Policy.fides_key p = key"
  then obtain p where f: "find (\<lambda>q. Policy.fides_key q = key) local_policies = Some p"
    by (cases "find (\<lambda>q. Policy.fides_key q = key) local_policies")
       (auto simp: find_None_iff)
  then have "p \<in> set local_policies \<and> Policy.fides_key p = key"
    by (auto simp: find_Some_iff)
  moreover have "get_evaluation_policies c local_policies (Some key) url headers = ([p], [])"
    using k f by (simp add: get_evaluation_policies_def)
  ultimately show "\<exists>p. find (\<lambda>q. Policy.fides_key q = key) local_policies = Some p
           \<and> p \<in> set local_policies \<and> Policy.fides_key p = key
           \<and> get_evaluation_policies c local_policies (Some key) url headers = ([p], [])"
    using f by blast
next
  assume k: "key \<noteq> []" and "\<forall>p \<in> set local_policies. Policy.fides_key p \<noteq> key"
  then have "find (\<lambda>q. Policy.fides_key q = key) local_policies = None"
    by (simp add: find_None_iff)
  then show "get_evaluation_policies c local_policies (Some key) url headers =
          ((case get_server_resource c url headers key of Some p \<Rightarrow> [p] | None \<Rightarrow> []),
           [GetServerResource url headers key])"
    using k by (simp add: get_evaluation_policies_def)
qed

theorem get_evaluation_policies_target_key_witness:
  "get_evaluation_policies (in_memory taxonomy_passing [policy_B_remote, policy_C])
      [policy_A, policy_B] (Some ''A'') url0 [] = ([policy_A], [])
   \<and> get_evaluation_policies (in_memory taxonomy_passing [policy_B_remote, policy_C])
      [policy_A, policy_B] (Some ''C'') url0 [] = ([policy_C], [GetServerResource url0 [] ''C''])
   \<and> get_evaluation_policies (in_memory taxonomy_passing [policy_B_remote, policy_C])
      [policy_A, policy_B] (Some ''D'') url0 [] = ([], [GetServerResource url0 [] ''D''])"
  using get_evaluation_policies_target_key
          [of "''A''" "[policy_A, policy_B]"
              "in_memory taxonomy_passing [policy_B_remote, policy_C]" url0 "[]"]
        get_evaluation_policies_target_key
          [of "''C''" "[policy_A, policy_B]"
              "in_memory taxonomy_passing [policy_B_remote, policy_C]" url0 "[]"]
        get_evaluation_policies_target_key
          [of "''D''" "[policy_A, policy_B]"
              "in_memory taxonomy_passing [policy_B_remote, policy_C]" url0 "[]"]
  by (simp add: in_memory_def server_get_def policy_A_def policy_B_def policy_B_remote_def
      policy_C_def)

text \<open>
  Claim C5. Without a target key (the key is \<open>None\<close> or empty) the result is the local
  policies followed by what the server returns for those of its listed keys that no
  local policy has; only these keys are asked for. On a server that holds policies with
  distinct keys and answers from them, the result is the local policies followed by
  exactly the server's policies whose key no local policy has, so a local policy
  stands in place of a remote one with its key.
\<close>

theorem get_evaluation_policies_no_key:
  "(\<not> truthy evaluate_fides_key \<longrightarrow>
      get_evaluation_policies c local_policies evaluate_fides_key url headers =
        (local_policies @ get_server_resources c url headers
           [k \<leftarrow> api_ls c url headers. k \<notin> set (map Policy.fides_key local_policies)],
         [ApiLs url headers, GetServerResources url headers
           [k \<leftarrow> api_ls c url headers. k \<notin> set (map Policy.fides_key local_policies)]]))
   \<and> (\<not> truthy evaluate_fides_key \<and> distinct (map Policy.fides_key remote) \<longrightarrow>
      fst (get_evaluation_policies (in_memory local remote) local_policies evaluate_fides_key
             url headers) =
        local_policies @
          [p \<leftarrow> remote. Policy.fides_key p \<notin> set (map Policy.fides_key local_policies)])"
  using server_get_many_distinct
          [of remote "\<lambda>k. k \<notin> set (map Policy.fides_key local_policies)"]
  by (simp add: get_evaluation_policies_all in_memory_def)

theorem get_evaluation_policies_no_key_witness:
  "get_evaluation_policies (in_memory taxonomy_passing [policy_B_remote, policy_C])
      [policy_A, policy_B] None url0 []
     = ([policy_A, policy_B, policy_C], [ApiLs url0 [], GetServerResources url0 [] [''C'']])
   \<and> policy_B \<noteq> policy_B_remote"
  using get_evaluation_policies_no_key
          [of None "in_memory taxonomy_passing [policy_B_remote, policy_C]"
              "[policy_A, policy_B]" url0 "[]" "[policy_B_remote, policy_C]" taxonomy_passing]
  by (simp add: in_memory_def server_get_many_def server_get_def policy_A_def policy_B_def
      policy_B_remote_def policy_C_def)

text \<open>
  Claim C10. An empty string as target key takes the branch for no target key: the
  server's list is read and the policies under the keys that no local policy has are
  fetched and appended to the local ones, no single policy is looked up, and the result
  and the calls are those for the key \<open>None\<close>.
\<close>

theorem get_evaluation_policies_empty_key:
  "get_evaluation_policies c local_policies (Some []) url headers =
     (local_policies @ get_server_resources c url headers
        [k \<leftarrow> api_ls c url headers. k \<notin> set (map Policy.fides_key local_policies)],
      [ApiLs url headers, GetServerResources url headers
        [k \<leftarrow> api_ls c url headers. k \<notin> set (map Policy.fides_key local_policies)]])
   \<and> get_evaluation_policies c local_policies (Some []) url headers =
       get_evaluation_policies c local_policies None url headers"
  by (simp add: get_evaluation_policies_all)

theorem get_evaluation_policies_empty_key_witness:
  "get_evaluation_policies (in_memory taxonomy_passing [policy_B_remote, policy_C])
      [policy_A, policy_B] (Some []) url0 []
     = ([policy_A, policy_B, policy_C], [ApiLs url0 [], GetServerResources url0 [] [''C'']])"
  using get_evaluation_policies_empty_key
          [of "in_memory taxonomy_passing [policy_B_remote, policy_C]"
              "[policy_A, policy_B]" url0 "[]"]
  by (simp add: in_memory_def server_get_many_def server_get_def policy_A_def policy_B_def
      policy_B_remote_def policy_C_def)

subsection \<open>Facts about the orchestrator\<close>

text \<open>
  The two ways a run of \<open>evaluate\<close> can go: it stops in \<open>validate_policies_exist\<close>
  before \<open>execute_evaluation\<close> is called, or it calls \<open>execute_evaluation\<close> once and
  then raises or returns according to the status.
\<close>

lemma evaluate_cases:
  "(\<exists>calls out. evaluate c url manifests_dir fides_key' headers message' dry
        = (Inl EvaluationError, Parse manifests_dir # calls @ out)
      \<and> (\<forall>t. ExecuteEvaluation t \<notin> set calls) \<and> (\<forall>t. ExecuteEvaluation t \<notin> set out))
   \<or> (\<exists>pre taxonomy evaluation post.
        execute_evaluation taxonomy = Inr evaluation
      \<and> (\<forall>t. ExecuteEvaluation t \<notin> set pre)
      \<and> evaluate c url manifests_dir fides_key' headers message' dry =
          (if status evaluation = FAIL
           then (Inl EvaluationError,
                 pre @ [ExecuteEvaluation taxonomy,
                        PrettyEcho (evaluation\<lparr>message := Some message'\<rparr>) ''red''])
           else (Inr (evaluation\<lparr>message := Some message'\<rparr>),
                 pre @ ExecuteEvaluation taxonomy # post))
      \<and> (\<forall>t. ExecuteEvaluation t \<notin> set post))"
proof -
  let ?tax0 = "parse c manifests_dir"
  obtain policies calls where
    g: "get_evaluation_policies c (policy ?tax0) fides_key' url headers = (policies, calls)"
    by (cases "get_evaluation_policies c (policy ?tax0) fides_key' url headers")
  have nc: "\<And>t. ExecuteEvaluation t \<notin> set calls"
    using get_evaluation_policies_events [of _ c "policy ?tax0" fides_key' url headers]
    by (simp add: g)
  show ?thesis
  proof (cases "policies = []")
    case True
    have "evaluate c url manifests_dir fides_key' headers message' dry =
      (Inl EvaluationError,
       Parse manifests_dir # calls @ snd (validate_policies_exist [] fides_key'))"
      by (simp add: evaluate_def g True validate_policies_exist_def)
    moreover have "\<forall>t. ExecuteEvaluation t \<notin> set (snd (validate_policies_exist [] fides_key'))"
      by (simp add: validate_policies_exist_def)
    ultimately show ?thesis using nc by blast
  next
    case False
    define tax1 where "tax1 = ?tax0\<lparr>policy := policies\<rparr>"
    define missing where "missing = get_referenced_missing_keys c tax1"
    define tax2 where "tax2 =
      (if missing \<noteq> [] then hydrate_missing_resources c url headers missing tax1 else tax1)"
    define pre where "pre = Parse manifests_dir # calls @
       [EchoGreen (''Evaluating the following policies:'' @ [CHR 0x0A]
               @ join [CHR 0x0A] (map Policy.fides_key policies)),
             Print (replicate 10 CHR ''-''),
             EchoGreen ''Checking for missing resources...'']
       @ (if missing \<noteq> [] then
            [EchoGreen (''Fetching the following missing resources from the server:''
                     @ [CHR 0x0A] @ join [CHR 0x0A] missing),
                   EchoGreen ''Hydrating the taxonomy...'',
                   HydrateMissingResources url headers missing] else [])
       @ [EchoGreen ''Executing evaluations...'']"
    define post where "post =
       (if \<not> dry then [EchoGreen ''Sending the evaluation results to the server...''] else [])
              @ [EchoGreen ''Evaluation passed!'']"
    have pt: "policy tax1 = policies" by (simp add: tax1_def)
    obtain evaluation where ex: "execute_evaluation tax2 = Inr evaluation"
      using execute_evaluation_total by blast
    have npre: "\<forall>t. ExecuteEvaluation t \<notin> set pre"
      using nc by (simp add: pre_def)
    have npost: "\<forall>t. ExecuteEvaluation t \<notin> set post"
      by (simp add: post_def)
    have st: "(status_value (status evaluation) = ''FAIL'') = (status evaluation = FAIL)"
      by (cases "status evaluation") simp_all
    have "evaluate c url manifests_dir fides_key' headers message' dry =
          (if status evaluation = FAIL
           then (Inl EvaluationError,
                 pre @ [ExecuteEvaluation tax2,
                        PrettyEcho (evaluation\<lparr>message := Some message'\<rparr>) ''red''])
           else (Inr (evaluation\<lparr>message := Some message'\<rparr>),
                 pre @ ExecuteEvaluation tax2 # post))"
    proof (cases "missing = []")
      case True
      then have t2: "tax2 = tax1" by (simp add: tax2_def)
      show ?thesis
        using False ex st True
        by (simp add: evaluate_def g validate_policies_exist_def Let_def
             tax1_def [symmetric] missing_def [symmetric] t2 pre_def post_def pt)
    next
      case nonempty: False
      then have t2: "tax2 = hydrate_missing_resources c url headers missing tax1"
        by (simp add: tax2_def)
      show ?thesis
        using False ex st nonempty
        by (simp add: evaluate_def g validate_policies_exist_def Let_def
             tax1_def [symmetric] missing_def [symmetric] t2 pre_def post_def pt)
    qed
    then show ?thesis using ex npre npost by blast
  qed
qed

text \<open>Three runs on the in-memory server.\<close>

lemma resolve_policy_one:
  "get_evaluation_policies (in_memory t []) [policy_one] None u h
    = ([policy_one], [ApiLs u h, GetServerResources u h []])"
  by (simp add: get_evaluation_policies_def get_all_server_policies_def in_memory_def
      server_get_many_def)

lemma run_failing:
  "evaluate (in_memory taxonomy_failing []) url0 ''manifests'' None [] ''nightly'' True =
    (Inl EvaluationError,
     [Parse ''manifests'', ApiLs url0 [], GetServerResources url0 [] [],
      EchoGreen (''Evaluating the following policies:'' @ [CHR 0x0A] @ ''policy1''),
      Print ''----------'',
      EchoGreen ''Checking for missing resources...'',
      EchoGreen ''Executing evaluations...'',
      ExecuteEvaluation taxonomy_failing,
      PrettyEcho \<lparr>status = FAIL,
          details = [''Declaration (ads) of System (shop) failed Rule (no-ads) from Policy (policy1)''],
          message = Some ''nightly''\<rparr> ''red''])"
proof -
  have p: "policy taxonomy_failing = [policy_one]" by (simp add: taxonomy_failing_def)
  have i: "parse (in_memory taxonomy_failing []) ''manifests'' = taxonomy_failing"
          "get_referenced_missing_keys (in_memory taxonomy_failing []) taxonomy_failing = []"
    by (simp_all add: in_memory_def)
  have u: "taxonomy_failing\<lparr>policy := [policy_one]\<rparr> = taxonomy_failing"
    by (simp add: taxonomy_failing_def)
  have k: "Policy.fides_key policy_one = ''policy1''" by (simp add: policy_one_def)
  have n: "replicate 10 CHR ''-'' = ''----------''" by code_simp
  show ?thesis
    by (simp add: evaluate_def i p resolve_policy_one u validate_policies_exist_def
        execute_failing k n)
qed

lemma run_passing:
  "evaluate (in_memory taxonomy_passing []) url0 ''manifests'' None [] ''nightly'' False =
    (Inr \<lparr>status = PASS, details = [], message = Some ''nightly''\<rparr>,
     [Parse ''manifests'', ApiLs url0 [], GetServerResources url0 [] [],
      EchoGreen (''Evaluating the following policies:'' @ [CHR 0x0A] @ ''policy1''),
      Print ''----------'',
      EchoGreen ''Checking for missing resources...'',
      EchoGreen ''Executing evaluations...'',
      ExecuteEvaluation taxonomy_passing,
      EchoGreen ''Sending the evaluation results to the server...'',
      EchoGreen ''Evaluation passed!''])"
proof -
  have p: "policy taxonomy_passing = [policy_one]" by (simp add: taxonomy_passing_def)
  have i: "parse (in_memory taxonomy_passing []) ''manifests'' = taxonomy_passing"
          "get_referenced_missing_keys (in_memory taxonomy_passing []) taxonomy_passing = []"
    by (simp_all add: in_memory_def)
  have u: "taxonomy_passing\<lparr>policy := [policy_one]\<rparr> = taxonomy_passing"
    by (simp add: taxonomy_passing_def)
  have k: "Policy.fides_key policy_one = ''policy1''" by (simp add: policy_one_def)
  have n: "replicate 10 CHR ''-'' = ''----------''" by code_simp
  show ?thesis
    by (simp add: evaluate_def i p resolve_policy_one u validate_policies_exist_def
        execute_passing k n)
qed

lemma resolve_missing:
  "get_evaluation_policies (in_memory taxonomy_no_policy []) [] (Some ''missing'') url0 []
     = ([], [GetServerResource url0 [] ''missing''])"
  by (simp add: get_evaluation_policies_def in_memory_def server_get_def)

text \<open>
  Claim C7. When the resolver returns no policy, \<open>validate_policies_exist\<close> raises
  \<open>EvaluationError\<close> and so does \<open>evaluate\<close>; the run consists of the parse, the
  resolver's calls and the output of \<open>validate_policies_exist\<close>, and
  \<open>execute_evaluation\<close> is not called.
\<close>

theorem evaluate_no_policies:
  "fst (get_evaluation_policies c (policy (parse c manifests_dir)) fides_key' url headers) = []
   \<Longrightarrow> fst (validate_policies_exist [] fides_key') = Inl EvaluationError
     \<and> fst (evaluate c url manifests_dir fides_key' headers message' dry) = Inl EvaluationError
     \<and> snd (evaluate c url manifests_dir fides_key' headers message' dry) =
         Parse manifests_dir
           # snd (get_evaluation_policies c (policy (parse c manifests_dir)) fides_key' url headers)
           @ snd (validate_policies_exist [] fides_key')
     \<and> (\<forall>t. ExecuteEvaluation t
           \<notin> set (snd (evaluate c url manifests_dir fides_key' headers message' dry)))"
proof -
  assume a: "fst (get_evaluation_policies c (policy (parse c manifests_dir)) fides_key'
                url headers) = []"
  obtain calls where g: "get_evaluation_policies c (policy (parse c manifests_dir)) fides_key'
                           url headers = ([], calls)"
    using a
    by (cases "get_evaluation_policies c (policy (parse c manifests_dir)) fides_key' url headers")
       simp
  have e: "evaluate c url manifests_dir fides_key' headers message' dry =
     (Inl EvaluationError,
      Parse manifests_dir # calls @ snd (validate_policies_exist [] fides_key'))"
    by (simp add: evaluate_def g validate_policies_exist_def)
  have n: "\<And>t. ExecuteEvaluation t \<notin> set calls"
    using get_evaluation_policies_events
            [of _ c "policy (parse c manifests_dir)" fides_key' url headers]
    by (simp add: g)
  show ?thesis
    using n by (auto simp: e g validate_policies_exist_def)
qed

theorem evaluate_no_policies_witness:
  "evaluate (in_memory taxonomy_no_policy []) url0 ''manifests'' (Some ''missing'') []
      ''nightly'' True =
     (Inl EvaluationError,
      [Parse ''manifests'', GetServerResource url0 [] ''missing'',
       EchoRed ''Policy missing could not be found''])"
proof -
  have i: "policy (parse (in_memory taxonomy_no_policy []) ''manifests'') = []"
    by (simp add: in_memory_def taxonomy_no_policy_def)
  have h: "fst (get_evaluation_policies (in_memory taxonomy_no_policy [])
             (policy (parse (in_memory taxonomy_no_policy []) ''manifests''))
             (Some ''missing'') url0 []) = []"
    by (simp add: i resolve_missing)
  show ?thesis
    using evaluate_no_policies [OF h, of "''nightly''" True]
    by (simp add: i resolve_missing validate_policies_exist_def prod_eq_iff)
qed

text \<open>
  Claim C8. When a run of \<open>evaluate\<close> calls \<open>execute_evaluation\<close> on a taxonomy and the
  evaluation it gets has status FAIL, the run raises \<open>EvaluationError\<close>, and the last
  thing it does before is to print the evaluation, with the message attached, in red.
  When the status is PASS the run raises nothing and returns the evaluation with the
  message attached.
\<close>

theorem evaluate_fail_raises:
  "ExecuteEvaluation taxonomy
     \<in> set (snd (evaluate c url manifests_dir fides_key' headers message' dry))
   \<Longrightarrow> execute_evaluation taxonomy = Inr evaluation
   \<Longrightarrow> (status evaluation = FAIL \<longrightarrow>
          fst (evaluate c url manifests_dir fides_key' headers message' dry) = Inl EvaluationError
        \<and> (\<exists>pre. snd (evaluate c url manifests_dir fides_key' headers message' dry) =
              pre @ [ExecuteEvaluation taxonomy,
                     PrettyEcho (evaluation\<lparr>message := Some message'\<rparr>) ''red'']))
     \<and> (status evaluation = PASS \<longrightarrow>
          fst (evaluate c url manifests_dir fides_key' headers message' dry) =
            Inr (evaluation\<lparr>message := Some message'\<rparr>))"
proof -
  assume m: "ExecuteEvaluation taxonomy
     \<in> set (snd (evaluate c url manifests_dir fides_key' headers message' dry))"
  assume ex: "execute_evaluation taxonomy = Inr evaluation"
  from evaluate_cases [of c url manifests_dir fides_key' headers message' dry]
  show ?thesis
  proof (elim disjE exE conjE)
    fix calls out
    assume "evaluate c url manifests_dir fides_key' headers message' dry
        = (Inl EvaluationError, Parse manifests_dir # calls @ out)"
      and "\<forall>t. ExecuteEvaluation t \<notin> set calls" and "\<forall>t. ExecuteEvaluation t \<notin> set out"
    with m show ?thesis by auto
  next
    fix pre tax ev post
    assume ex': "execute_evaluation tax = Inr ev"
      and npre: "\<forall>t. ExecuteEvaluation t \<notin> set pre"
      and npost: "\<forall>t. ExecuteEvaluation t \<notin> set post"
      and e: "evaluate c url manifests_dir fides_key' headers message' dry =
          (if status ev = FAIL
           then (Inl EvaluationError,
                 pre @ [ExecuteEvaluation tax,
                        PrettyEcho (ev\<lparr>message := Some message'\<rparr>) ''red''])
           else (Inr (ev\<lparr>message := Some message'\<rparr>),
                 pre @ ExecuteEvaluation tax # post))"
    have "tax = taxonomy"
      using m npre npost unfolding e by (auto split: if_splits)
    with ex ex' have "ev = evaluation" by simp
    with e \<open>tax = taxonomy\<close> show ?thesis by auto
  qed
qed

theorem evaluate_fail_raises_witness:
  "fst (evaluate (in_memory taxonomy_failing []) url0 ''manifests'' None [] ''nightly'' True)
     = Inl EvaluationError
   \<and> last (snd (evaluate (in_memory taxonomy_failing []) url0 ''manifests'' None []
                   ''nightly'' True))
     = PrettyEcho \<lparr>status = FAIL,
          details = [''Declaration (ads) of System (shop) failed Rule (no-ads) from Policy (policy1)''],
          message = Some ''nightly''\<rparr> ''red''
   \<and> fst (evaluate (in_memory taxonomy_passing []) url0 ''manifests'' None [] ''nightly'' False)
     = Inr \<lparr>status = PASS, details = [], message = Some ''nightly''\<rparr>"
proof -
  have m1: "ExecuteEvaluation taxonomy_failing
     \<in> set (snd (evaluate (in_memory taxonomy_failing []) url0 ''manifests'' None []
                    ''nightly'' True))"
    by (simp add: run_failing)
  have m2: "ExecuteEvaluation taxonomy_passing
     \<in> set (snd (evaluate (in_memory taxonomy_passing []) url0 ''manifests'' None []
                    ''nightly'' False))"
    by (simp add: run_passing)
  show ?thesis
    using evaluate_fail_raises [OF m1 execute_failing]
          evaluate_fail_raises [OF m2 execute_passing]
    by auto
qed

text \<open>
  Claim C9. An evaluation that \<open>evaluate\<close> returns has status PASS and carries the
  caller's message, and it is the evaluation that the run's call of \<open>execute_evaluation\<close>
  produced, of status PASS, with the message attached. When the run's call of
  \<open>execute_evaluation\<close> produces an evaluation of status FAIL, \<open>evaluate\<close> returns no
  evaluation: it raises \<open>EvaluationError\<close>.
\<close>

theorem evaluate_returns_pass:
  "(fst (evaluate c url manifests_dir fides_key' headers message' dry) = Inr evaluation \<longrightarrow>
      status evaluation = PASS \<and> message evaluation = Some message'
    \<and> (\<exists>taxonomy returned.
          ExecuteEvaluation taxonomy
            \<in> set (snd (evaluate c url manifests_dir fides_key' headers message' dry))
        \<and> execute_evaluation taxonomy = Inr returned
        \<and> status returned = PASS
        \<and> evaluation = returned\<lparr>message := Some message'\<rparr>))
   \<and> (ExecuteEvaluation failing
          \<in> set (snd (evaluate c url manifests_dir fides_key' headers message' dry))
      \<and> execute_evaluation failing = Inr failed \<and> status failed = FAIL \<longrightarrow>
        fst (evaluate c url manifests_dir fides_key' headers message' dry) = Inl EvaluationError)"
proof -
  from evaluate_cases [of c url manifests_dir fides_key' headers message' dry]
  show ?thesis
  proof (elim disjE exE conjE)
    fix calls out
    assume e: "evaluate c url manifests_dir fides_key' headers message' dry
        = (Inl EvaluationError, Parse manifests_dir # calls @ out)"
    then show ?thesis by simp
  next
    fix pre tax ev post
    assume ex: "execute_evaluation tax = Inr ev"
      and npre: "\<forall>t. ExecuteEvaluation t \<notin> set pre"
      and npost: "\<forall>t. ExecuteEvaluation t \<notin> set post"
      and e: "evaluate c url manifests_dir fides_key' headers message' dry =
          (if status ev = FAIL
           then (Inl EvaluationError,
                 pre @ [ExecuteEvaluation tax,
                        PrettyEcho (ev\<lparr>message := Some message'\<rparr>) ''red''])
           else (Inr (ev\<lparr>message := Some message'\<rparr>),
                 pre @ ExecuteEvaluation tax # post))"
    have only: "\<And>t. ExecuteEvaluation t
          \<in> set (snd (evaluate c url manifests_dir fides_key' headers message' dry))
        \<Longrightarrow> t = tax"
      using npre npost unfolding e by (auto split: if_splits)
    have called: "ExecuteEvaluation tax
          \<in> set (snd (evaluate c url manifests_dir fides_key' headers message' dry))"
      unfolding e by simp
    show ?thesis
    proof (intro conjI impI)
      assume r: "fst (evaluate c url manifests_dir fides_key' headers message' dry)
                   = Inr evaluation"
      have p: "status ev = PASS"
        using r e by (cases "status ev") simp_all
      have v: "evaluation = ev\<lparr>message := Some message'\<rparr>"
        using r e p by simp
      show "status evaluation = PASS" using v p by simp
      show "message evaluation = Some message'" using v by simp
      show "\<exists>taxonomy returned.
          ExecuteEvaluation taxonomy
            \<in> set (snd (evaluate c url manifests_dir fides_key' headers message' dry))
        \<and> execute_evaluation taxonomy = Inr returned
        \<and> status returned = PASS
        \<and> evaluation = returned\<lparr>message := Some message'\<rparr>"
        using called ex p v by blast
    next
      assume a: "ExecuteEvaluation failing
          \<in> set (snd (evaluate c url manifests_dir fides_key' headers message' dry))
        \<and> execute_evaluation failing = Inr failed \<and> status failed = FAIL"
      then have "failing = tax" using only by blast
      with a ex have "ev = failed" by simp
      with a e show "fst (evaluate c url manifests_dir fides_key' headers message' dry)
                       = Inl EvaluationError"
        by simp
    qed
  qed
qed

theorem evaluate_returns_pass_witness:
  "fst (evaluate (in_memory taxonomy_passing []) url0 ''manifests'' None [] ''nightly'' False)
     = Inr \<lparr>status = PASS, details = [], message = Some ''nightly''\<rparr>
   \<and> status \<lparr>status = PASS, details = [], message = Some ''nightly''\<rparr> = PASS
   \<and> message \<lparr>status = PASS, details = [], message = Some ''nightly''\<rparr> = Some ''nightly''
   \<and> (\<exists>taxonomy returned.
          ExecuteEvaluation taxonomy
            \<in> set (snd (evaluate (in_memory taxonomy_passing []) url0 ''manifests'' None []
                           ''nightly'' False))
        \<and> execute_evaluation taxonomy = Inr returned
        \<and> status returned = PASS
        \<and> \<lparr>status = PASS, details = [], message = Some ''nightly''\<rparr>
            = returned\<lparr>message := Some ''nightly''\<rparr>)
   \<and> ExecuteEvaluation taxonomy_failing
        \<in> set (snd (evaluate (in_memory taxonomy_failing []) url0 ''manifests'' None []
                       ''nightly'' True))
   \<and> fst (evaluate (in_memory taxonomy_failing []) url0 ''manifests'' None [] ''nightly'' True)
     = Inl EvaluationError"
proof -
  have r: "fst (evaluate (in_memory taxonomy_passing []) url0 ''manifests'' None [] ''nightly''
                  False)
     = Inr \<lparr>status = PASS, details = [], message = Some ''nightly''\<rparr>"
    by (simp add: run_passing)
  have m: "ExecuteEvaluation taxonomy_failing
        \<in> set (snd (evaluate (in_memory taxonomy_failing []) url0 ''manifests'' None []
                       ''nightly'' True))"
    by (simp add: run_failing)
  have f: "status \<lparr>status = FAIL,
          details = [''Declaration (ads) of System (shop) failed Rule (no-ads) from Policy (policy1)''],
          message = None\<rparr> = FAIL"
    by simp
  show ?thesis
    using evaluate_returns_pass
            [of "in_memory taxonomy_passing []" url0 "''manifests''" None "[]" "''nightly''" False
                "\<lparr>status = PASS, details = [], message = Some ''nightly''\<rparr>"]
          evaluate_returns_pass
            [of "in_memory taxonomy_failing []" url0 "''manifests''" None "[]" "''nightly''" True
                _ taxonomy_failing
                "\<lparr>status = FAIL,
                  details = [''Declaration (ads) of System (shop) failed Rule (no-ads) from Policy (policy1)''],
                  message = None\<rparr>"]
          r m f execute_failing
    by blast
qed

end
